theory Spec2Isabelle
  imports Complex_Main
begin

section \<open>The classifier's Dispatcher (classifier.py) and the boundary configuration\<close>

text \<open>
  The development embeds \<^verbatim>\<open>classifier.py\<close> (class \<^verbatim>\<open>Dispatcher\<close>) and
  \<^verbatim>\<open>config/__init__.py\<close>. Python floats are read as reals, Python ints as \<open>int\<close>
  (or \<open>nat\<close> for counters that only grow from 0), strings as ASCII \<open>string\<close>s.
  Everything the Dispatcher obtains from outside (OpenCV, the clock, the keyboard) is a
  field of the record \<open>world\<close>; how far the run has consumed each of these sources is
  kept in the Dispatcher state, next to the attributes of the object.
\<close>

subsection \<open>Python exceptions\<close>

datatype py_error =
    TypeError
  | IndexError
  | ValueError
  | KeyError
  | ZeroDivisionError
  | AttributeError
  | UnboundLocalError
  | CvError

subsection \<open>Frames and the images OpenCV derives from them\<close>

text \<open>
  A frame is a numpy array: \<open>shape0\<close> is \<^verbatim>\<open>frame.shape[0]\<close> (height), \<open>shape1\<close> is
  \<^verbatim>\<open>frame.shape[1]\<close> (width); the pixels are opaque.
\<close>

record frame =
  shape0 :: int
  shape1 :: int
  pixels :: nat

text \<open>
  The results of the three OpenCV calls of \<^verbatim>\<open>preprocess\<close> are kept symbolic, so that a
  processed frame records which frame and which \<^verbatim>\<open>dsize\<close> it was made from.
\<close>

datatype img =
    CvtColorGray frame
  | Resize img "int \<times> int"
  | EqualizeHist img

type_synonym rect = "int \<times> int \<times> int \<times> int"

subsection \<open>cvlib: Shape, Region, Display\<close>

text \<open>
  Modelled from the spec: the enumeration \<^verbatim>\<open>Shape\<close> of module \<^verbatim>\<open>cvlib\<close>, which is not
  among the sources: \<^verbatim>\<open>enum{RECTANGLE, ELLIPSE}\<close>.
\<close>

datatype shape = RECTANGLE | ELLIPSE

type_synonym color = "nat \<times> nat \<times> nat"

text \<open>
  Modelled from the spec: the class \<^verbatim>\<open>Region\<close> of module \<^verbatim>\<open>cvlib\<close>, which is not among
  the sources: the immutable value
  \<^verbatim>\<open>{x, y, width, height: real; color: RGB triple; shape}\<close>.
\<close>

record region =
  region_x :: real
  region_y :: real
  region_width :: real
  region_height :: real
  region_color :: color
  region_shape :: shape

text \<open>
  Modelled from the spec: the constructor \<^verbatim>\<open>Region(x, y, w, h, color, shape)\<close> of
  \<^verbatim>\<open>cvlib\<close>, which stores its six arguments as they are.
\<close>

definition Region :: "real \<Rightarrow> real \<Rightarrow> real \<Rightarrow> real \<Rightarrow> color \<Rightarrow> shape \<Rightarrow> region" where
  "Region a b c d col sh = \<lparr>region_x = a, region_y = b, region_width = c, region_height = d,
      region_color = col, region_shape = sh\<rparr>"

subsection \<open>A loaded cascade classifier\<close>

text \<open>
  \<^verbatim>\<open>cv.CascadeClassifier\<close>: the native detection window and the detector itself, which
  takes the processed frame and the scale factor and may raise.
\<close>

record cascade =
  getOriginalWindowSize :: "int \<times> int"
  detectMultiScale :: "img \<Rightarrow> real \<Rightarrow> py_error + rect list"

subsection \<open>config/__init__.py\<close>

text \<open>
  The YAML document as nested dictionaries with integer leaves (for which \<^verbatim>\<open>int(...)\<close> is
  the identity); a missing key raises KeyError.
\<close>

type_synonym yaml = "string \<rightharpoonup> (string \<rightharpoonup> (string \<rightharpoonup> int))"

definition yaml_get :: "yaml \<Rightarrow> string \<Rightarrow> string \<Rightarrow> string \<Rightarrow> py_error + int" where
  "yaml_get cb a b c =
     (case cb a of None \<Rightarrow> Inl KeyError
      | Some m1 \<Rightarrow> (case m1 b of None \<Rightarrow> Inl KeyError
         | Some m2 \<Rightarrow> (case m2 c of None \<Rightarrow> Inl KeyError | Some v \<Rightarrow> Inr v)))"

text \<open>One category's entry: \<^verbatim>\<open>{'min': (w, h), 'max': (w, h)}\<close>.\<close>

record boundary =
  bmin :: "int \<times> int"
  bmax :: "int \<times> int"

text \<open>
  \<^verbatim>\<open>config_boundarys\<close> is the empty tuple unless the file exists, and then the dictionary
  with the keys \<^verbatim>\<open>'face'\<close> and \<^verbatim>\<open>'body'\<close>.
\<close>

datatype boundarys =
    EmptyTuple
  | Boundarys boundary boundary

definition category_boundary :: "yaml \<Rightarrow> string \<Rightarrow> py_error + boundary" where
  "category_boundary cb cat =
     (case yaml_get cb ''min'' cat ''width'' of Inl e \<Rightarrow> Inl e | Inr minw \<Rightarrow>
     (case yaml_get cb ''min'' cat ''height'' of Inl e \<Rightarrow> Inl e | Inr minh \<Rightarrow>
     (case yaml_get cb ''max'' cat ''width'' of Inl e \<Rightarrow> Inl e | Inr maxw \<Rightarrow>
     (case yaml_get cb ''max'' cat ''height'' of Inl e \<Rightarrow> Inl e | Inr maxh \<Rightarrow>
        Inr \<lparr>bmin = (minw, minh), bmax = (maxw, maxh)\<rparr>))))"

text \<open>
  The argument is the parsed file, \<open>None\<close> when \<^verbatim>\<open>path.isfile(config_file_path)\<close> is
  false.
\<close>

definition config_boundarys :: "yaml option \<Rightarrow> py_error + boundarys" where
  "config_boundarys file =
     (case file of
        None \<Rightarrow> Inr EmptyTuple
      | Some cb \<Rightarrow>
          (case category_boundary cb ''face'' of Inl e \<Rightarrow> Inl e | Inr face \<Rightarrow>
          (case category_boundary cb ''body'' of Inl e \<Rightarrow> Inl e | Inr body \<Rightarrow>
             Inr (Boundarys face body))))"

subsection \<open>The world outside the Dispatcher\<close>

datatype source_arg = CamIndex nat | FilePath string

text \<open>
  A \<^verbatim>\<open>cv.VideoCapture\<close>: \<open>isOpened\<close>, the value of
  \<^verbatim>\<open>cap.get(cv.CAP_PROP_FRAME_COUNT)\<close>, and what the n-th call of \<^verbatim>\<open>cap.read()\<close>
  returns as its frame (\<open>None\<close> for Python's None).
\<close>

record capture =
  isOpened :: bool
  frame_count :: real
  cap_read :: "nat \<Rightarrow> frame option"

text \<open>
  \<open>time_time n\<close> is the n-th reading of \<^verbatim>\<open>time.time()\<close>, \<open>waitKey n\<close> the result of the
  n-th \<^verbatim>\<open>cv.waitKey\<close>, \<open>np_empty_cell i\<close> the uninitialised content of cell \<open>i\<close> of a
  fresh \<^verbatim>\<open>np.empty\<close> array. \<open>module_config_boundarys\<close> is the module-level value
  \<^verbatim>\<open>config.config_boundarys\<close>. \<open>set_orientation\<close> is a parameter: it stands for
  \<^verbatim>\<open>Display.set_orientation\<close> of cvlib, which is not among the sources, and gives the
  working resolution \<^verbatim>\<open>display.size\<close> that the call fixes from the frame it is given.
\<close>

record world =
  imread :: "string \<Rightarrow> frame option"
  VideoCapture :: "source_arg \<Rightarrow> capture"
  time_time :: "nat \<Rightarrow> real"
  waitKey :: "nat \<Rightarrow> int"
  np_empty_cell :: "nat \<Rightarrow> real"
  set_orientation :: "frame \<Rightarrow> int \<times> int"
  module_config_boundarys :: "py_error + boundarys"

subsection \<open>What the run does to the outside, in order\<close>

datatype log_msg =
    FrameTime real
  | CantOpen
  | AverageNaN
  | Average real
  | MaxTime real
  | MinTime real

datatype event =
    EvImread string
  | EvPreprocess
  | EvDetectMultiScale
  | EvShow "frame option" "region list" "img option" "region list option"
  | EvWaitKey int
  | EvVideoCapture source_arg
  | EvRead
  | EvLogInfo log_msg
  | EvLogError log_msg

subsection \<open>The Dispatcher object\<close>

text \<open>
  The attributes of \<^verbatim>\<open>Dispatcher\<close> (\<open>image_str\<close> is \<^verbatim>\<open>self.image\<close>, \<open>times_arr\<close> is
  \<^verbatim>\<open>self.times\<close>), with \<open>display_size\<close> for \<^verbatim>\<open>self.display.size\<close>,
  followed by the positions reached in the clock, the keyboard and the capture, and the
  events so far.
\<close>

record dispatcher =
  models_cascade :: "cascade list"
  video_source :: "string option"
  image_str :: "string option"
  start_time_int :: "real option"
  times_arr :: "real list option"
  times_index :: nat
  is_first_frame :: bool
  colors :: "color list"
  display_size :: "int \<times> int"
  clock_pos :: nat
  key_pos :: nat
  read_pos :: nat
  trace :: "event list"

text \<open>
  \<^verbatim>\<open>Dispatcher.__init__\<close>. \<^verbatim>\<open>random_colors\<close> and \<^verbatim>\<open>Display()\<close> belong to cvlib, which
  is not among the sources: the colours drawn and the size of a fresh Display are
  parameters. Loading a model is the \<^verbatim>\<open>cascade\<close> it yields.
\<close>

definition Dispatcher_init ::
  "cascade list \<Rightarrow> string option \<Rightarrow> string option \<Rightarrow> color list \<Rightarrow> int \<times> int \<Rightarrow> dispatcher" where
  "Dispatcher_init models vs im cs sz =
     \<lparr>models_cascade = models, video_source = vs, image_str = im, start_time_int = None,
      times_arr = None, times_index = 0, is_first_frame = True, colors = cs,
      display_size = sz, clock_pos = 0, key_pos = 0, read_pos = 0, trace = []\<rparr>"

definition emit :: "event \<Rightarrow> dispatcher \<Rightarrow> dispatcher" where
  "emit e s = s\<lparr>trace := trace s @ [e]\<rparr>"

subsection \<open>str.isnumeric and int(str)\<close>

text \<open>On ASCII strings \<^verbatim>\<open>str.isnumeric\<close> holds for the non-empty strings of digits.\<close>

definition is_digit :: "char \<Rightarrow> bool" where
  "is_digit c = (c \<in> set ''0123456789'')"

definition isnumeric :: "string \<Rightarrow> bool" where
  "isnumeric str = (str \<noteq> [] \<and> list_all is_digit str)"

definition digit_val :: "char \<Rightarrow> nat" where
  "digit_val c = of_char c - of_char CHR ''0''"

definition int_of_str :: "string \<Rightarrow> nat" where
  "int_of_str str = foldl (\<lambda>n c. 10 * n + digit_val c) 0 str"

text \<open>\<^verbatim>\<open>int(x)\<close> of a float truncates towards zero.\<close>

definition int_of_float :: "real \<Rightarrow> int" where
  "int_of_float r = (if 0 \<le> r then \<lfloor>r\<rfloor> else \<lceil>r\<rceil>)"

subsection \<open>Dispatcher.__start_time and Dispatcher.__end_time\<close>

definition start_time :: "world \<Rightarrow> dispatcher \<Rightarrow> dispatcher" where
  "start_time W s =
     s\<lparr>start_time_int := Some (time_time W (clock_pos s)), clock_pos := Suc (clock_pos s)\<rparr>"

text \<open>
  The elapsed time is computed twice, from two readings of the clock: once for the log
  line and once for the value stored. A store into \<^verbatim>\<open>None\<close> raises TypeError, a store
  at an index outside the numpy array raises IndexError.
\<close>

definition end_time :: "world \<Rightarrow> dispatcher \<Rightarrow> py_error + dispatcher" where
  "end_time W s =
     (case start_time_int s of
        None \<Rightarrow> Inl TypeError
      | Some t0 \<Rightarrow>
          (let s1 = emit (EvLogInfo (FrameTime (time_time W (clock_pos s) - t0)))
                      (s\<lparr>clock_pos := Suc (clock_pos s)\<rparr>)
           in case video_source s1 of
                None \<Rightarrow> Inl TypeError
              | Some src \<Rightarrow>
                  if \<not> isnumeric src then
                    (let v = time_time W (clock_pos s1) - t0;
                         s2 = s1\<lparr>clock_pos := Suc (clock_pos s1)\<rparr>
                     in case times_arr s2 of
                          None \<Rightarrow> Inl TypeError
                        | Some buf \<Rightarrow>
                            if times_index s2 < length buf
                            then Inr (s2\<lparr>times_arr := Some (buf[times_index s2 := v]),
                                        times_index := times_index s2 + 1\<rparr>)
                            else Inl IndexError)
                  else Inr s1))"

subsection \<open>Dispatcher.preprocess\<close>

text \<open>
  \<^verbatim>\<open>cv.cvtColor\<close> raises on None; \<^verbatim>\<open>cv.resize\<close> raises when \<^verbatim>\<open>dsize\<close> has a
  component that is not positive.
\<close>

definition preprocess :: "world \<Rightarrow> frame option \<Rightarrow> dispatcher \<Rightarrow> py_error + (img \<times> dispatcher)" where
  "preprocess W fr s =
     (let s0 = emit EvPreprocess s in
      case fr of
        None \<Rightarrow> Inl CvError
      | Some f \<Rightarrow>
          (let frame_gray = CvtColorGray f;
               s1 = (if is_first_frame s0
                     then s0\<lparr>display_size := set_orientation W f, is_first_frame := False\<rparr>
                     else s0)
           in if fst (display_size s1) \<le> 0 \<or> snd (display_size s1) \<le> 0 then Inl CvError
              else Inr (EqualizeHist (Resize frame_gray (display_size s1)), s1)))"

subsection \<open>Dispatcher.detect\<close>

definition model_shape :: "cascade \<Rightarrow> shape" where
  "model_shape m =
     (if length (remdups [fst (getOriginalWindowSize m), snd (getOriginalWindowSize m)]) = 1
      then ELLIPSE else RECTANGLE)"

definition processed_region :: "color \<Rightarrow> shape \<Rightarrow> rect \<Rightarrow> region" where
  "processed_region col sh r =
     (case r of (rx, ry, rw, rh) \<Rightarrow>
        Region (real_of_int rx) (real_of_int ry) (real_of_int rw) (real_of_int rh) col sh)"

definition original_region :: "real \<Rightarrow> real \<Rightarrow> color \<Rightarrow> shape \<Rightarrow> rect \<Rightarrow> region" where
  "original_region scale_factor_x scale_factor_y col sh r =
     (case r of (rx, ry, rw, rh) \<Rightarrow>
        Region (real_of_int rx * scale_factor_x) (real_of_int ry * scale_factor_y)
               (real_of_int rw * scale_factor_x) (real_of_int rh * scale_factor_y) col sh)"

text \<open>
  The body of the \<^verbatim>\<open>for model_cascade, color in zip(...)\<close> loop, run over the zipped
  list. The accumulator holds \<^verbatim>\<open>original_frame_regions_list\<close>,
  \<^verbatim>\<open>processed_frame_regions_list\<close> and the local \<^verbatim>\<open>processed_frame\<close> (\<open>None\<close> while
  it is unbound).
\<close>

type_synonym detect_acc = "region list \<times> region list \<times> img option"

fun detect_models ::
  "world \<Rightarrow> frame option \<Rightarrow> (cascade \<times> color) list \<Rightarrow> detect_acc \<Rightarrow> dispatcher
     \<Rightarrow> py_error + (detect_acc \<times> dispatcher)" where
  "detect_models W fr [] acc s = Inr (acc, s)"
| "detect_models W fr ((model_cascade, col) # rest) acc s =
     (let sh = model_shape model_cascade in
      case preprocess W fr s of
        Inl e \<Rightarrow> Inl e
      | Inr (processed_frame, s1) \<Rightarrow>
          (case detectMultiScale model_cascade processed_frame (12 / 10) of
             Inl e \<Rightarrow> Inl e
           | Inr obj_list \<Rightarrow>
               (case fr of
                  None \<Rightarrow> Inl AttributeError
                | Some f \<Rightarrow>
                    if fst (display_size s1) = 0 \<or> snd (display_size s1) = 0
                    then Inl ZeroDivisionError
                    else
                      (let scale_factor_x = real_of_int (shape1 f) / real_of_int (fst (display_size s1));
                           scale_factor_y = real_of_int (shape0 f) / real_of_int (snd (display_size s1))
                       in detect_models W fr rest
                            (fst acc @ map (original_region scale_factor_x scale_factor_y col sh) obj_list,
                             fst (snd acc) @ map (processed_region col sh) obj_list,
                             Some processed_frame)
                            (emit EvDetectMultiScale s1)))))"

type_synonym detect_result = "region list \<times> img option \<times> region list option"

definition detect ::
  "world \<Rightarrow> frame option \<Rightarrow> bool \<Rightarrow> dispatcher \<Rightarrow> py_error + (detect_result \<times> dispatcher)" where
  "detect W fr processed_frame_preview s =
     (case detect_models W fr (zip (models_cascade s) (colors s)) ([], [], None) (start_time W s) of
        Inl e \<Rightarrow> Inl e
      | Inr ((original_frame_regions_list, processed_frame_regions_list, processed_frame), s1) \<Rightarrow>
          (case end_time W s1 of
             Inl e \<Rightarrow> Inl e
           | Inr s2 \<Rightarrow>
               if \<not> processed_frame_preview
               then Inr ((original_frame_regions_list, None, None), s2)
               else (case processed_frame of
                       None \<Rightarrow> Inl UnboundLocalError
                     | Some pf \<Rightarrow>
                         Inr ((original_frame_regions_list, Some pf, Some processed_frame_regions_list), s2))))"

subsection \<open>Dispatcher.detect_and_display\<close>

text \<open>
  Modelled from the spec: \<^verbatim>\<open>Display.show\<close> is not among the sources; it renders the
  frame with its regions (and the processed preview when given), changes the windows on
  screen only, and returns nothing.
\<close>

definition display_show ::
  "frame option \<Rightarrow> region list \<Rightarrow> img option \<Rightarrow> region list option \<Rightarrow> dispatcher \<Rightarrow> dispatcher" where
  "display_show fr regions frame_processed regions_processed s =
     emit (EvShow fr regions frame_processed regions_processed) s"

definition detect_and_display ::
  "world \<Rightarrow> frame option \<Rightarrow> bool \<Rightarrow> dispatcher \<Rightarrow> py_error + dispatcher" where
  "detect_and_display W fr processed_frame_preview s =
     (case detect W fr processed_frame_preview s of
        Inl e \<Rightarrow> Inl e
      | Inr ((regions, frame_p, frame_reg_p), s1) \<Rightarrow>
          Inr (display_show fr regions frame_p frame_reg_p s1))"

subsection \<open>The statistics numpy computes at the end of the run\<close>

text \<open>
  \<^verbatim>\<open>np.average\<close> of an empty array is nan (with a warning); \<^verbatim>\<open>np.amax\<close> and
  \<^verbatim>\<open>np.amin\<close> of an empty array raise ValueError.
\<close>

definition np_average :: "real list \<Rightarrow> real" where
  "np_average xs = sum_list xs / real (length xs)"

definition np_amax :: "real list \<Rightarrow> py_error + real" where
  "np_amax xs = (case xs of [] \<Rightarrow> Inl ValueError | a # as \<Rightarrow> Inr (fold max as a))"

definition np_amin :: "real list \<Rightarrow> py_error + real" where
  "np_amin xs = (case xs of [] \<Rightarrow> Inl ValueError | a # as \<Rightarrow> Inr (fold min as a))"

text \<open>
  The three \<^verbatim>\<open>logging.info\<close> lines after the loop, each over
  \<^verbatim>\<open>self.times[:self.times_index]\<close>.
\<close>

definition log_statistics :: "dispatcher \<Rightarrow> py_error + dispatcher" where
  "log_statistics s =
     (case times_arr s of
        None \<Rightarrow> Inl TypeError
      | Some buf \<Rightarrow>
          (let filled = take (times_index s) buf;
               s1 = emit (EvLogInfo (if filled = [] then AverageNaN
                                     else Average (np_average filled))) s
           in case np_amax filled of
                Inl e \<Rightarrow> Inl e
              | Inr mx \<Rightarrow>
                  (case np_amin filled of
                     Inl e \<Rightarrow> Inl e
                   | Inr mn \<Rightarrow>
                       Inr (emit (EvLogInfo (MinTime mn)) (emit (EvLogInfo (MaxTime mx)) s1)))))"

subsection \<open>Dispatcher.start\<close>

text \<open>
  The \<^verbatim>\<open>while True\<close> loop. It may run for ever (a camera that never stops, no escape
  key), in which case its value is \<open>None\<close>.
\<close>

partial_function (option) read_loop ::
  "world \<Rightarrow> capture \<Rightarrow> bool \<Rightarrow> dispatcher \<Rightarrow> (py_error + dispatcher) option" where
  "read_loop W cap processed_frame_preview s =
     (let s1 = emit EvRead (s\<lparr>read_pos := Suc (read_pos s)\<rparr>) in
      case cap_read cap (read_pos s) of
        None \<Rightarrow> Some (Inr s1)
      | Some f \<Rightarrow>
          (case detect_and_display W (Some f) processed_frame_preview s1 of
             Inl e \<Rightarrow> Some (Inl e)
           | Inr s2 \<Rightarrow>
               (let s3 = emit (EvWaitKey 1) (s2\<lparr>key_pos := Suc (key_pos s2)\<rparr>) in
                if waitKey W (key_pos s2) = 27 then Some (Inr s3)
                else read_loop W cap processed_frame_preview s3)))"

declare read_loop.simps [code]

text \<open>
  How the process ends: \<^verbatim>\<open>start\<close> returns, \<^verbatim>\<open>exit(n)\<close> is called, or an exception is
  not caught (the interpreter then exits with status 1).
\<close>

datatype outcome =
    Returned dispatcher
  | Exited nat dispatcher
  | Raised py_error


text \<open>\<^verbatim>\<open>if self.image:\<close> holds for a string that is not empty.\<close>

definition truthy :: "string option \<Rightarrow> bool" where
  "truthy v = (case v of None \<Rightarrow> False | Some str \<Rightarrow> str \<noteq> [])"

text \<open>
  Lines 112 to 116, the \<^verbatim>\<open>if self.image:\<close> block. The boolean of the result says
  whether the \<^verbatim>\<open>return\<close> of line 116 was taken.
\<close>

definition start_image :: "world \<Rightarrow> bool \<Rightarrow> dispatcher \<Rightarrow> py_error + (bool \<times> dispatcher)" where
  "start_image W processed_frame_preview s =
     (if truthy (image_str s) then
        (let s1 = emit (EvImread (the (image_str s))) s in
         case detect_and_display W (imread W (the (image_str s))) processed_frame_preview s1 of
           Inl e \<Rightarrow> Inl e
         | Inr s2 \<Rightarrow>
             Inr (waitKey W (key_pos s2) = 27,
                  emit (EvWaitKey 0) (s2\<lparr>key_pos := Suc (key_pos s2)\<rparr>)))
      else Inr (False, s))"

text \<open>
  The argument of \<^verbatim>\<open>cv.VideoCapture\<close>:
  \<^verbatim>\<open>int(self.video_source) if str.isnumeric(self.video_source) else self.video_source\<close>.
\<close>

definition source_arg_of :: "string \<Rightarrow> source_arg" where
  "source_arg_of src = (if isnumeric src then CamIndex (int_of_str src) else FilePath src)"

text \<open>Lines 118 to 136: the capture, the timing buffer, the loop and the statistics.\<close>

definition start_video :: "world \<Rightarrow> bool \<Rightarrow> dispatcher \<Rightarrow> outcome option" where
  "start_video W processed_frame_preview s =
     (case video_source s of
        None \<Rightarrow> Some (Raised TypeError)
      | Some src \<Rightarrow>
          (let cap = VideoCapture W (source_arg_of src);
               s1 = emit (EvVideoCapture (source_arg_of src)) (s\<lparr>read_pos := 0\<rparr>);
               frames_number = int_of_float (frame_count cap);
               s2 = (if frames_number > 0
                     then s1\<lparr>times_arr := Some (map (np_empty_cell W) [0..<nat frames_number])\<rparr>
                     else s1)
           in if \<not> isOpened cap then Some (Exited 1 (emit (EvLogError CantOpen) s2))
              else
                (case read_loop W cap processed_frame_preview s2 of
                   None \<Rightarrow> None
                 | Some (Inl e) \<Rightarrow> Some (Raised e)
                 | Some (Inr s3) \<Rightarrow>
                     if frames_number > 0
                     then (case log_statistics s3 of
                             Inl e \<Rightarrow> Some (Raised e)
                           | Inr s4 \<Rightarrow> Some (Returned s4))
                     else Some (Returned s3))))"

definition start :: "world \<Rightarrow> bool \<Rightarrow> dispatcher \<Rightarrow> outcome option" where
  "start W processed_frame_preview s =
     (case start_image W processed_frame_preview s of
        Inl e \<Rightarrow> Some (Raised e)
      | Inr (returned, s1) \<Rightarrow>
          if returned then Some (Returned s1)
          else start_video W processed_frame_preview s1)"

section \<open>Notions used to state the properties\<close>

text \<open>
  What a model reports on a processed frame when its detector does not raise, and the
  processed frame \<^verbatim>\<open>preprocess\<close> builds from a frame at a working resolution.
\<close>

definition obj_list_of :: "cascade \<Rightarrow> img \<Rightarrow> rect list" where
  "obj_list_of m p = (case detectMultiScale m p (12 / 10) of Inl e \<Rightarrow> [] | Inr l \<Rightarrow> l)"

definition processed_of :: "frame \<Rightarrow> int \<times> int \<Rightarrow> img" where
  "processed_of f sz = EqualizeHist (Resize (CvtColorGray f) sz)"

text \<open>
  The scale factors as the specification words them: original width over working width,
  original height over working height; and the linear transform of a rectangle.
\<close>

definition scale_x :: "frame \<Rightarrow> int \<times> int \<Rightarrow> real" where
  "scale_x f sz = real_of_int (shape1 f) / real_of_int (fst sz)"

definition scale_y :: "frame \<Rightarrow> int \<times> int \<Rightarrow> real" where
  "scale_y f sz = real_of_int (shape0 f) / real_of_int (snd sz)"

definition rescaled :: "real \<Rightarrow> real \<Rightarrow> rect \<Rightarrow> real \<times> real \<times> real \<times> real" where
  "rescaled sx sy r =
     (case r of (x, y, w, h) \<Rightarrow>
        (real_of_int x * sx, real_of_int y * sy, real_of_int w * sx, real_of_int h * sy))"

definition geometry :: "region \<Rightarrow> real \<times> real \<times> real \<times> real" where
  "geometry r = (region_x r, region_y r, region_width r, region_height r)"


text \<open>The index of the next timing write does not lie beyond the end of the buffer.\<close>

definition within_buffer :: "dispatcher \<Rightarrow> bool" where
  "within_buffer s = (case times_arr s of None \<Rightarrow> True | Some buf \<Rightarrow> times_index s \<le> length buf)"

text \<open>How often \<^verbatim>\<open>Dispatcher.preprocess\<close> has been called, and what has been shown.\<close>

definition preprocess_calls :: "event list \<Rightarrow> nat" where
  "preprocess_calls evs = length (filter (\<lambda>e. e = EvPreprocess) evs)"

fun is_show :: "event \<Rightarrow> bool" where
  "is_show (EvShow fr regions fp frp) = True"
| "is_show e = False"

definition show_calls :: "event list \<Rightarrow> nat" where
  "show_calls evs = length (filter is_show evs)"


section \<open>A concrete world\<close>

text \<open>
  Two models (a square window and a tall one), a camera that always delivers, a second
  camera that reports a frame count of two, a clip of two frames, a clip that reports two
  frames and delivers three, a clip that reports two frames and delivers none, a stream
  without a frame count, and paths that cannot be opened.
\<close>

definition example_frame :: frame where
  "example_frame = \<lparr>shape0 = 480, shape1 = 640, pixels = 7\<rparr>"

definition face_cascade :: cascade where
  "face_cascade = \<lparr>getOriginalWindowSize = (24, 24),
                    detectMultiScale = (\<lambda>p sf. Inr [(10, 20, 30, 40)])\<rparr>"

definition body_cascade :: cascade where
  "body_cascade = \<lparr>getOriginalWindowSize = (14, 28),
                    detectMultiScale = (\<lambda>p sf. Inr [(1, 2, 3, 4), (5, 6, 7, 8)])\<rparr>"

definition example_capture :: "source_arg \<Rightarrow> capture" where
  "example_capture arg =
     (case arg of
        CamIndex n \<Rightarrow>
          if n = 1
          then \<lparr>isOpened = True, frame_count = 2, cap_read = (\<lambda>n. Some example_frame)\<rparr>
          else \<lparr>isOpened = True, frame_count = - 1, cap_read = (\<lambda>n. Some example_frame)\<rparr>
      | FilePath p \<Rightarrow>
          if p = ''clip.mp4''
          then \<lparr>isOpened = True, frame_count = 2,
                cap_read = (\<lambda>n. if n < 2 then Some example_frame else None)\<rparr>
          else if p = ''vfr.mp4''
          then \<lparr>isOpened = True, frame_count = 2,
                cap_read = (\<lambda>n. if n < 3 then Some example_frame else None)\<rparr>
          else if p = ''empty.mp4''
          then \<lparr>isOpened = True, frame_count = 2, cap_read = (\<lambda>n. None)\<rparr>
          else if p = ''rtsp://cam''
          then \<lparr>isOpened = True, frame_count = 0, cap_read = (\<lambda>n. Some example_frame)\<rparr>
          else \<lparr>isOpened = False, frame_count = 0, cap_read = (\<lambda>n. None)\<rparr>)"

text \<open>The first key pressed is the space bar, every later one is escape.\<close>

definition example_world :: world where
  "example_world =
     \<lparr>imread = (\<lambda>p. Some example_frame),
      VideoCapture = example_capture,
      time_time = (\<lambda>n. real (n * n) / 8),
      waitKey = (\<lambda>n. if n = 0 then 32 else 27),
      np_empty_cell = (\<lambda>i. 99),
      set_orientation = (\<lambda>f. (shape1 f div 2, shape0 f div 4)),
      module_config_boundarys = Inr EmptyTuple\<rparr>"

text \<open>The same world with nobody at the keyboard.\<close>

definition quiet_world :: world where
  "quiet_world = example_world\<lparr>waitKey := (\<lambda>n. - 1)\<rparr>"

text \<open>The same world with escape pressed at once.\<close>

definition escape_world :: world where
  "escape_world = example_world\<lparr>waitKey := (\<lambda>n. 27)\<rparr>"

definition example_dispatcher :: "string option \<Rightarrow> string option \<Rightarrow> dispatcher" where
  "example_dispatcher vs im =
     Dispatcher_init [face_cascade, body_cascade] vs im [(255, 0, 0), (0, 255, 0)] (0, 0)"

text \<open>A later frame of another size, and a Dispatcher that has seen its first frame.\<close>

definition small_frame :: frame where
  "small_frame = \<lparr>shape0 = 90, shape1 = 160, pixels = 8\<rparr>"

definition latched_dispatcher :: dispatcher where
  "latched_dispatcher =
     (example_dispatcher (Some ''0'') None)\<lparr>is_first_frame := False, display_size := (320, 120)\<rparr>"

text \<open>
  A Dispatcher on the clip whose buffer of two cells is full, and one on the camera that
  has a buffer all the same; both in the middle of a detection.
\<close>

definition full_dispatcher :: dispatcher where
  "full_dispatcher =
     (example_dispatcher (Some ''clip.mp4'') None)
       \<lparr>start_time_int := Some 0, times_arr := Some [1, 2], times_index := 2\<rparr>"

definition camera_with_buffer :: dispatcher where
  "camera_with_buffer =
     (example_dispatcher (Some ''0'') None)
       \<lparr>start_time_int := Some 0, times_arr := Some [99, 99]\<rparr>"

section \<open>Facts about the operations\<close>

subsection \<open>Events and the loop\<close>

lemma emit_fields [simp]:
  "models_cascade (emit e s) = models_cascade s"
  "video_source (emit e s) = video_source s"
  "image_str (emit e s) = image_str s"
  "start_time_int (emit e s) = start_time_int s"
  "times_arr (emit e s) = times_arr s"
  "times_index (emit e s) = times_index s"
  "is_first_frame (emit e s) = is_first_frame s"
  "colors (emit e s) = colors s"
  "display_size (emit e s) = display_size s"
  "clock_pos (emit e s) = clock_pos s"
  "key_pos (emit e s) = key_pos s"
  "read_pos (emit e s) = read_pos s"
  "trace (emit e s) = trace s @ [e]"
  by (simp_all add: emit_def)

lemma read_loop_invariant:
  assumes run: "read_loop W cap pfp s = Some (Inr s')"
    and init: "I s"
    and rd: "\<And>t. I t \<Longrightarrow> I (emit EvRead (t\<lparr>read_pos := Suc (read_pos t)\<rparr>))"
    and step: "\<And>t f t2. I t \<Longrightarrow> detect_and_display W (Some f) pfp t = Inr t2
                 \<Longrightarrow> I (emit (EvWaitKey 1) (t2\<lparr>key_pos := Suc (key_pos t2)\<rparr>))"
  shows "I s'"
proof -
  have "W = W \<longrightarrow> pfp = pfp \<longrightarrow> I s \<longrightarrow> (\<forall>u. (Inr s' :: py_error + dispatcher) = Inr u \<longrightarrow> I u)"
    apply (rule read_loop.raw_induct
        [where P = "\<lambda>W0 cap0 pfp0 t y. W0 = W \<longrightarrow> pfp0 = pfp \<longrightarrow> I t \<longrightarrow> (\<forall>u. y = Inr u \<longrightarrow> I u)",
          OF _ run])
    apply (auto simp: Let_def split: option.splits sum.splits if_splits intro: step rd)
    apply (blast intro: step rd)
    done
  with init show ?thesis by blast
qed

subsection \<open>preprocess and the model loop\<close>

lemma preprocess_Inr:
  assumes "preprocess W fr s = Inr (p, s')"
  shows "\<exists>f. fr = Some f \<and> p = processed_of f (display_size s')"
    and "\<not> is_first_frame s'"
    and "display_size s' = (if is_first_frame s then set_orientation W (the fr) else display_size s)"
    and "0 < fst (display_size s') \<and> 0 < snd (display_size s')"
    and "trace s' = trace s @ [EvPreprocess]"
    and "models_cascade s' = models_cascade s \<and> video_source s' = video_source s
         \<and> image_str s' = image_str s \<and> colors s' = colors s"
    and "times_arr s' = times_arr s \<and> times_index s' = times_index s
         \<and> start_time_int s' = start_time_int s \<and> clock_pos s' = clock_pos s"
    and "key_pos s' = key_pos s \<and> read_pos s' = read_pos s"
  using assms
  by (auto simp: preprocess_def Let_def processed_of_def split: option.splits if_splits)

lemma detect_models_latched:
  "detect_models W fr ms acc s = Inr (r, s') \<Longrightarrow> \<not> is_first_frame s
     \<Longrightarrow> display_size s' = display_size s \<and> \<not> is_first_frame s'"
proof (induction ms arbitrary: acc s)
  case Nil
  then show ?case by simp
next
  case (Cons mc ms)
  obtain m c where mc: "mc = (m, c)" by (cases mc)
  from Cons.prems obtain p s1 where
    pre: "preprocess W fr s = Inr (p, s1)"
    by (auto simp: mc Let_def split: sum.splits)
  from Cons.prems pre obtain acc1 where
    rec: "detect_models W fr ms acc1 (emit EvDetectMultiScale s1) = Inr (r, s')"
    by (auto simp: mc Let_def split: sum.splits option.splits if_splits)
  from preprocess_Inr(2,3)[OF pre] Cons.prems(2)
  have "\<not> is_first_frame (emit EvDetectMultiScale s1)"
    "display_size (emit EvDetectMultiScale s1) = display_size s" by simp_all
  with Cons.IH[OF rec] show ?case by simp
qed

lemma detect_models_fields:
  "detect_models W fr ms acc s = Inr (r, s') \<Longrightarrow>
     models_cascade s' = models_cascade s \<and> video_source s' = video_source s
     \<and> image_str s' = image_str s \<and> colors s' = colors s
     \<and> times_arr s' = times_arr s \<and> times_index s' = times_index s
     \<and> start_time_int s' = start_time_int s \<and> clock_pos s' = clock_pos s
     \<and> key_pos s' = key_pos s \<and> read_pos s' = read_pos s"
proof (induction ms arbitrary: acc s)
  case Nil
  then show ?case by simp
next
  case (Cons mc ms)
  obtain m c where mc: "mc = (m, c)" by (cases mc)
  from Cons.prems obtain p s1 where
    pre: "preprocess W fr s = Inr (p, s1)"
    by (auto simp: mc Let_def split: sum.splits)
  from Cons.prems pre obtain acc1 where
    rec: "detect_models W fr ms acc1 (emit EvDetectMultiScale s1) = Inr (r, s')"
    by (auto simp: mc Let_def split: sum.splits option.splits if_splits)
  from Cons.IH[OF rec] preprocess_Inr(6,7,8)[OF pre] show ?case by simp
qed

lemma detect_models_regions:
  assumes "detect_models W (Some f) ms acc s = Inr ((ro, rp, pf), s')"
  shows "ro = fst acc @ concat (map (\<lambda>(m, c).
            map (original_region (scale_x f (display_size s')) (scale_y f (display_size s')) c (model_shape m))
                (obj_list_of m (processed_of f (display_size s')))) ms)
       \<and> rp = fst (snd acc) @ concat (map (\<lambda>(m, c).
            map (processed_region c (model_shape m))
                (obj_list_of m (processed_of f (display_size s')))) ms)
       \<and> pf = (if ms = [] then snd (snd acc) else Some (processed_of f (display_size s')))"
  using assms
proof (induction ms arbitrary: acc s)
  case Nil
  then show ?case by auto
next
  case (Cons mc ms)
  obtain m c where mc: "mc = (m, c)" by (cases mc)
  from Cons.prems obtain p s1 where
    pre: "preprocess W (Some f) s = Inr (p, s1)"
    by (auto simp: mc Let_def split: sum.splits)
  from Cons.prems pre obtain l where
    det: "detectMultiScale m p (12 / 10) = Inr l"
    by (auto simp: mc Let_def split: sum.splits)
  let ?acc1 = "(fst acc @ map (original_region (scale_x f (display_size s1)) (scale_y f (display_size s1)) c (model_shape m)) l,
                fst (snd acc) @ map (processed_region c (model_shape m)) l, Some p)"
  from Cons.prems pre det have
    rec: "detect_models W (Some f) ms ?acc1 (emit EvDetectMultiScale s1) = Inr ((ro, rp, pf), s')"
    by (auto simp: mc Let_def scale_x_def scale_y_def split: sum.splits option.splits if_splits)
  have latch: "\<not> is_first_frame (emit EvDetectMultiScale s1)"
    using preprocess_Inr(2)[OF pre] by simp
  have sz: "display_size s' = display_size s1"
    using detect_models_latched[OF rec latch] by simp
  have p: "p = processed_of f (display_size s')"
    using preprocess_Inr(1)[OF pre] sz by simp
  have l: "obj_list_of m (processed_of f (display_size s')) = l"
    using det p by (simp add: obj_list_of_def)
  from Cons.IH[OF rec] show ?case
    by (simp add: mc sz l[unfolded sz] p[unfolded sz])
qed

lemma count_preprocess:
  "detect_models W fr ms acc s = Inr (r, s') \<Longrightarrow>
     preprocess_calls (trace s') = preprocess_calls (trace s) + length ms"
proof (induction ms arbitrary: acc s)
  case Nil
  then show ?case by simp
next
  case (Cons mc ms)
  obtain m c where mc: "mc = (m, c)" by (cases mc)
  from Cons.prems obtain p s1 where
    pre: "preprocess W fr s = Inr (p, s1)"
    by (auto simp: mc Let_def split: sum.splits)
  from Cons.prems pre obtain acc1 where
    rec: "detect_models W fr ms acc1 (emit EvDetectMultiScale s1) = Inr (r, s')"
    by (auto simp: mc Let_def split: sum.splits option.splits if_splits)
  from Cons.IH[OF rec] preprocess_Inr(5)[OF pre] show ?case
    by (simp add: preprocess_calls_def)
qed

subsection \<open>Timing, detect and detect_and_display\<close>

lemma start_time_fields [simp]:
  "models_cascade (start_time W s) = models_cascade s"
  "video_source (start_time W s) = video_source s"
  "image_str (start_time W s) = image_str s"
  "start_time_int (start_time W s) = Some (time_time W (clock_pos s))"
  "times_arr (start_time W s) = times_arr s"
  "times_index (start_time W s) = times_index s"
  "is_first_frame (start_time W s) = is_first_frame s"
  "colors (start_time W s) = colors s"
  "display_size (start_time W s) = display_size s"
  "clock_pos (start_time W s) = Suc (clock_pos s)"
  "key_pos (start_time W s) = key_pos s"
  "read_pos (start_time W s) = read_pos s"
  "trace (start_time W s) = trace s"
  by (simp_all add: start_time_def)

lemma end_time_fields:
  assumes "end_time W s = Inr s'"
  shows "models_cascade s' = models_cascade s \<and> video_source s' = video_source s
         \<and> image_str s' = image_str s \<and> colors s' = colors s
         \<and> start_time_int s' = start_time_int s"
    and "display_size s' = display_size s \<and> is_first_frame s' = is_first_frame s"
    and "key_pos s' = key_pos s \<and> read_pos s' = read_pos s"
    and "preprocess_calls (trace s') = preprocess_calls (trace s)"
  using assms
  by (auto simp: end_time_def Let_def preprocess_calls_def split: option.splits if_splits)

lemma end_time_numeric:
  assumes "video_source s = Some src" and "isnumeric src" and "end_time W s = Inr s'"
  shows "times_arr s' = times_arr s \<and> times_index s' = times_index s"
  using assms
  by (auto simp: end_time_def Let_def split: option.splits if_splits)


lemma end_time_unallocated:
  assumes "times_arr s = None" and "video_source s = Some src" and "\<not> isnumeric src"
  shows "end_time W s = Inl TypeError"
  using assms
  by (auto simp: end_time_def Let_def split: option.splits if_splits)

lemma end_time_full:
  assumes "times_arr s = Some buf" and "length buf \<le> times_index s"
    and "video_source s = Some src" and "\<not> isnumeric src" and "start_time_int s = Some t0"
  shows "end_time W s = Inl IndexError"
  using assms
  by (auto simp: end_time_def Let_def split: option.splits if_splits)

lemma detect_Inr:
  assumes "detect W fr pfp s = Inr ((regions, fp, frp), s')"
  shows "\<exists>rp pf s1.
           detect_models W fr (zip (models_cascade s) (colors s)) ([], [], None) (start_time W s)
             = Inr ((regions, rp, pf), s1)
           \<and> end_time W s1 = Inr s'
           \<and> (if pfp then fp = pf \<and> pf \<noteq> None \<and> frp = Some rp else fp = None \<and> frp = None)"
  using assms
  by (auto simp: detect_def split: sum.splits if_splits option.splits)

lemma detect_and_display_Inr:
  assumes "detect_and_display W fr pfp s = Inr s'"
  shows "\<exists>regions fp frp s2. detect W fr pfp s = Inr ((regions, fp, frp), s2)
           \<and> s' = emit (EvShow fr regions fp frp) s2"
  using assms
  by (auto simp: detect_and_display_def display_show_def split: sum.splits)

lemma detect_and_display_steps:
  assumes "detect_and_display W fr pfp s = Inr s'"
  obtains regions rp pf fp frp s1 s2 where
    "detect_models W fr (zip (models_cascade s) (colors s)) ([], [], None) (start_time W s)
       = Inr ((regions, rp, pf), s1)"
    "end_time W s1 = Inr s2"
    "s' = emit (EvShow fr regions fp frp) s2"
    "detect W fr pfp s = Inr ((regions, fp, frp), s2)"
proof -
  from detect_and_display_Inr[OF assms] obtain regions fp frp s2 where
    d: "detect W fr pfp s = Inr ((regions, fp, frp), s2)" and s': "s' = emit (EvShow fr regions fp frp) s2"
    by blast
  from detect_Inr[OF d] obtain rp pf s1 where
    "detect_models W fr (zip (models_cascade s) (colors s)) ([], [], None) (start_time W s)
       = Inr ((regions, rp, pf), s1)" "end_time W s1 = Inr s2"
    by blast
  with d s' that show thesis by blast
qed

lemma detect_and_display_fields:
  assumes "detect_and_display W fr pfp s = Inr s'"
  shows "models_cascade s' = models_cascade s \<and> video_source s' = video_source s
         \<and> image_str s' = image_str s \<and> colors s' = colors s"
    and "key_pos s' = key_pos s \<and> read_pos s' = read_pos s"
proof -
  from assms obtain regions rp pf fp frp s1 s2 where
    dm: "detect_models W fr (zip (models_cascade s) (colors s)) ([], [], None) (start_time W s)
       = Inr ((regions, rp, pf), s1)"
    and et: "end_time W s1 = Inr s2"
    and s': "s' = emit (EvShow fr regions fp frp) s2"
    by (rule detect_and_display_steps)
  from detect_models_fields[OF dm] end_time_fields(1,3)[OF et] s'
  show "models_cascade s' = models_cascade s \<and> video_source s' = video_source s
         \<and> image_str s' = image_str s \<and> colors s' = colors s"
    and "key_pos s' = key_pos s \<and> read_pos s' = read_pos s"
    by simp_all
qed

lemma detect_and_display_latched:
  assumes "detect_and_display W fr pfp s = Inr s'" and "\<not> is_first_frame s"
  shows "display_size s' = display_size s \<and> \<not> is_first_frame s'"
proof -
  from assms(1) obtain regions rp pf fp frp s1 s2 where
    dm: "detect_models W fr (zip (models_cascade s) (colors s)) ([], [], None) (start_time W s)
       = Inr ((regions, rp, pf), s1)"
    and et: "end_time W s1 = Inr s2"
    and s': "s' = emit (EvShow fr regions fp frp) s2"
    by (rule detect_and_display_steps)
  from assms(2) have "\<not> is_first_frame (start_time W s)" by simp
  from detect_models_latched[OF dm this] end_time_fields(2)[OF et] s'
  show ?thesis by simp
qed

lemma detect_and_display_numeric:
  assumes "detect_and_display W fr pfp s = Inr s'"
    and "video_source s = Some src" and "isnumeric src"
  shows "times_arr s' = times_arr s \<and> times_index s' = times_index s"
proof -
  from assms(1) obtain regions rp pf fp frp s1 s2 where
    dm: "detect_models W fr (zip (models_cascade s) (colors s)) ([], [], None) (start_time W s)
       = Inr ((regions, rp, pf), s1)"
    and et: "end_time W s1 = Inr s2"
    and s': "s' = emit (EvShow fr regions fp frp) s2"
    by (rule detect_and_display_steps)
  from detect_models_fields[OF dm] assms(2)
  have "video_source s1 = Some src" "times_arr s1 = times_arr s" "times_index s1 = times_index s"
    by simp_all
  with end_time_numeric[OF this(1) assms(3) et] s' show ?thesis by simp
qed

subsection \<open>What detect returns\<close>


lemma geometry_original_region:
  "geometry (original_region sx sy c sh r) = rescaled sx sy r"
  by (cases r) (simp add: geometry_def original_region_def rescaled_def Region_def)


lemma detect_regions:
  assumes "detect W (Some f) pfp s = Inr ((regions, fp, frp), s')"
  shows "regions = concat (map (\<lambda>(m, c).
            map (original_region (scale_x f (display_size s')) (scale_y f (display_size s')) c (model_shape m))
                (obj_list_of m (processed_of f (display_size s'))))
            (zip (models_cascade s) (colors s)))"
proof -
  from detect_Inr[OF assms] obtain rp pf s1 where
    dm: "detect_models W (Some f) (zip (models_cascade s) (colors s)) ([], [], None) (start_time W s)
           = Inr ((regions, rp, pf), s1)"
    and et: "end_time W s1 = Inr s'"
    by blast
  from end_time_fields(2)[OF et] have "display_size s1 = display_size s'" by simp
  with detect_models_regions[OF dm] show ?thesis by simp
qed

subsection \<open>The module-level boundary configuration is not read\<close>

lemma start_time_config [simp]:
  "start_time (W\<lparr>module_config_boundarys := c\<rparr>) s = start_time W s"
  by (simp add: start_time_def)

lemma end_time_config [simp]:
  "end_time (W\<lparr>module_config_boundarys := c\<rparr>) s = end_time W s"
  by (simp add: end_time_def Let_def split: option.splits)

lemma preprocess_config [simp]:
  "preprocess (W\<lparr>module_config_boundarys := c\<rparr>) fr s = preprocess W fr s"
  by (simp add: preprocess_def Let_def split: option.splits)

lemma detect_models_config [simp]:
  "detect_models (W\<lparr>module_config_boundarys := c\<rparr>) fr ms acc s = detect_models W fr ms acc s"
  by (induction W fr ms acc s rule: detect_models.induct)
     (auto simp: Let_def split: sum.splits option.splits)

lemma detect_config:
  "detect (W\<lparr>module_config_boundarys := c\<rparr>) fr pfp s = detect W fr pfp s"
  by (simp add: detect_def split: sum.splits)

subsection \<open>Calls of preprocess in one detection\<close>

lemma detect_preprocess_calls:
  assumes "detect W fr pfp s = Inr (r, s')"
  shows "preprocess_calls (trace s')
           = preprocess_calls (trace s) + length (zip (models_cascade s) (colors s))"
proof -
  obtain regions fp frp where r: "r = (regions, fp, frp)" by (cases r)
  from detect_Inr[OF assms[unfolded r]] obtain rp pf s1 where
    dm: "detect_models W fr (zip (models_cascade s) (colors s)) ([], [], None) (start_time W s)
           = Inr ((regions, rp, pf), s1)"
    and et: "end_time W s1 = Inr s'"
    by blast
  from count_preprocess[OF dm] end_time_fields(4)[OF et] show ?thesis by simp
qed

subsection \<open>The latch across the loop\<close>

lemma read_loop_latched:
  assumes "read_loop W cap pfp s = Some (Inr s')" and "\<not> is_first_frame s"
  shows "display_size s' = display_size s \<and> \<not> is_first_frame s'"
proof -
  let ?I = "\<lambda>t :: dispatcher. display_size t = display_size s \<and> \<not> is_first_frame t"
  have "?I s'"
  proof (rule read_loop_invariant[where I = ?I, OF assms(1)])
    show "?I s" using assms(2) by simp
  next
    fix t :: dispatcher assume "?I t"
    then show "?I (emit EvRead (t\<lparr>read_pos := Suc (read_pos t)\<rparr>))" by simp
  next
    fix t t2 :: dispatcher and f
    assume "?I t" and "detect_and_display W (Some f) pfp t = Inr t2"
    with detect_and_display_latched[of W "Some f" pfp t t2]
    show "?I (emit (EvWaitKey 1) (t2\<lparr>key_pos := Suc (key_pos t2)\<rparr>))" by simp
  qed
  then show ?thesis .
qed

subsection \<open>The timing buffer across the loop and the run\<close>

lemma within_buffer_eq:
  "times_arr t = times_arr s \<Longrightarrow> times_index t = times_index s
     \<Longrightarrow> within_buffer t = within_buffer s"
  by (simp add: within_buffer_def split: option.splits)

lemma within_buffer_simps [simp]:
  "within_buffer (emit e s) = within_buffer s"
  "within_buffer (s\<lparr>read_pos := r\<rparr>) = within_buffer s"
  "within_buffer (s\<lparr>key_pos := k\<rparr>) = within_buffer s"
  by (simp_all add: within_buffer_def split: option.splits)

lemma end_time_length:
  assumes "end_time W s = Inr s'"
  shows "map_option length (times_arr s') = map_option length (times_arr s)"
    and "within_buffer s \<Longrightarrow> within_buffer s'"
  using assms
  by (auto simp: end_time_def Let_def within_buffer_def split: option.splits if_splits)

lemma detect_and_display_length:
  assumes "detect_and_display W fr pfp s = Inr s'"
  shows "map_option length (times_arr s') = map_option length (times_arr s)"
    and "within_buffer s \<Longrightarrow> within_buffer s'"
proof -
  from assms obtain regions rp pf fp frp s1 s2 where
    dm: "detect_models W fr (zip (models_cascade s) (colors s)) ([], [], None) (start_time W s)
       = Inr ((regions, rp, pf), s1)"
    and et: "end_time W s1 = Inr s2"
    and s': "s' = emit (EvShow fr regions fp frp) s2"
    by (rule detect_and_display_steps)
  from detect_models_fields[OF dm]
  have eq: "times_arr s1 = times_arr s" "times_index s1 = times_index s" by simp_all
  from end_time_length(1)[OF et] eq s'
  show "map_option length (times_arr s') = map_option length (times_arr s)" by simp
  assume "within_buffer s"
  with within_buffer_eq[OF eq] have "within_buffer s1" by simp
  from end_time_length(2)[OF et this] s' show "within_buffer s'"
    by simp
qed

lemma read_loop_length:
  assumes "read_loop W cap pfp s = Some (Inr s')" and "within_buffer s"
  shows "map_option length (times_arr s') = map_option length (times_arr s) \<and> within_buffer s'"
proof -
  let ?I = "\<lambda>t :: dispatcher.
     map_option length (times_arr t) = map_option length (times_arr s) \<and> within_buffer t"
  have "?I s'"
  proof (rule read_loop_invariant[where I = ?I, OF assms(1)])
    show "?I s" using assms(2) by simp
  next
    fix t :: dispatcher assume "?I t"
    then show "?I (emit EvRead (t\<lparr>read_pos := Suc (read_pos t)\<rparr>))"
      by simp
  next
    fix t t2 :: dispatcher and f
    assume "?I t" and "detect_and_display W (Some f) pfp t = Inr t2"
    with detect_and_display_length[of W "Some f" pfp t t2]
    show "?I (emit (EvWaitKey 1) (t2\<lparr>key_pos := Suc (key_pos t2)\<rparr>))"
      by simp
  qed
  then show ?thesis .
qed

lemma read_loop_numeric:
  assumes "read_loop W cap pfp s = Some (Inr s')"
    and "video_source s = Some src" and "isnumeric src"
  shows "times_arr s' = times_arr s \<and> times_index s' = times_index s"
proof -
  let ?I = "\<lambda>t :: dispatcher. video_source t = Some src
              \<and> times_arr t = times_arr s \<and> times_index t = times_index s"
  have "?I s'"
  proof (rule read_loop_invariant[where I = ?I, OF assms(1)])
    show "?I s" using assms(2) by simp
  next
    fix t :: dispatcher assume "?I t"
    then show "?I (emit EvRead (t\<lparr>read_pos := Suc (read_pos t)\<rparr>))" by simp
  next
    fix t t2 :: dispatcher and f
    assume "?I t" and dd: "detect_and_display W (Some f) pfp t = Inr t2"
    with detect_and_display_fields(1)[OF dd]
      detect_and_display_numeric[OF dd _ assms(3)]
    show "?I (emit (EvWaitKey 1) (t2\<lparr>key_pos := Suc (key_pos t2)\<rparr>))" by simp
  qed
  then show ?thesis by simp
qed

lemma log_statistics_fields:
  assumes "log_statistics s = Inr s'"
  shows "times_arr s' = times_arr s \<and> times_index s' = times_index s
         \<and> video_source s' = video_source s"
  using assms
  by (auto simp: log_statistics_def Let_def split: option.splits sum.splits)

lemma start_image_Inr:
  assumes "start_image W pfp s = Inr (b, s1)"
  shows "video_source s1 = video_source s"
    and "map_option length (times_arr s1) = map_option length (times_arr s)"
    and "within_buffer s \<Longrightarrow> within_buffer s1"
    and "\<not> truthy (image_str s) \<Longrightarrow> s1 = s \<and> \<not> b"
  using assms detect_and_display_fields(1)[of W _ pfp "emit (EvImread (the (image_str s))) s"]
    detect_and_display_length[of W _ pfp "emit (EvImread (the (image_str s))) s"]
  by (auto simp: start_image_def Let_def split: if_splits sum.splits)

lemma end_time_None:
  assumes "end_time W s = Inr s'" and "times_arr s = None"
  shows "times_arr s' = None \<and> times_index s' = times_index s"
  using assms
  by (auto simp: end_time_def Let_def split: option.splits if_splits)

lemma detect_and_display_None:
  assumes "detect_and_display W fr pfp s = Inr s'" and "times_arr s = None"
  shows "times_arr s' = None \<and> times_index s' = times_index s"
proof -
  from assms(1) obtain regions rp pf fp frp s1 s2 where
    dm: "detect_models W fr (zip (models_cascade s) (colors s)) ([], [], None) (start_time W s)
       = Inr ((regions, rp, pf), s1)"
    and et: "end_time W s1 = Inr s2"
    and s': "s' = emit (EvShow fr regions fp frp) s2"
    by (rule detect_and_display_steps)
  from detect_models_fields[OF dm] assms(2)
  have "times_arr s1 = None" "times_index s1 = times_index s" by simp_all
  with end_time_None[OF et this(1)] s' show ?thesis by simp
qed

lemma start_image_None:
  assumes "start_image W pfp s = Inr (b, s1)" and "times_arr s = None"
  shows "times_arr s1 = None \<and> times_index s1 = times_index s"
  using assms
    detect_and_display_None[of W "imread W (the (image_str s))" pfp
      "emit (EvImread (the (image_str s))) s"]
  by (auto simp: start_image_def Let_def split: if_splits sum.splits)

lemma start_video_buffer:
  assumes run: "start_video W pfp s = Some (Returned s')"
    and fresh: "times_arr s = None" "times_index s = 0"
    and b: "times_arr s' = Some b"
  shows "\<exists>src. video_source s = Some src
           \<and> int (length b) = int_of_float (frame_count (VideoCapture W (source_arg_of src)))
           \<and> times_index s' \<le> length b"
proof -
  from run obtain src where src: "video_source s = Some src"
    by (auto simp: start_video_def split: option.splits)
  let ?cap = "VideoCapture W (source_arg_of src)"
  let ?N = "int_of_float (frame_count ?cap)"
  let ?s1 = "emit (EvVideoCapture (source_arg_of src)) (s\<lparr>read_pos := 0\<rparr>)"
  let ?s2 = "if ?N > 0 then ?s1\<lparr>times_arr := Some (map (np_empty_cell W) [0..<nat ?N])\<rparr> else ?s1"
  from run src obtain s3 where
    loop: "read_loop W ?cap pfp ?s2 = Some (Inr s3)"
    and fin: "if ?N > 0 then log_statistics s3 = Inr s' else s' = s3"
    by (auto simp: start_video_def Let_def split: option.splits sum.splits if_splits)
  have wb: "within_buffer ?s2" using fresh by (simp add: within_buffer_def)
  from read_loop_length[OF loop wb]
  have len: "map_option length (times_arr s3) = map_option length (times_arr ?s2)"
    and wb3: "within_buffer s3" by simp_all
  show ?thesis
  proof (cases "?N > 0")
    case True
    with fin have "log_statistics s3 = Inr s'" by simp
    from log_statistics_fields[OF this] b
    have b3: "times_arr s3 = Some b" and idx: "times_index s' = times_index s3" by simp_all
    from len b3 True have "length b = nat ?N" by simp
    moreover from wb3 b3 have "times_index s3 \<le> length b" by (simp add: within_buffer_def)
    ultimately show ?thesis using src idx True by simp
  next
    case False
    with fin len fresh b show ?thesis by simp
  qed
qed

lemma detect_and_display_unallocated_error:
  assumes "times_arr s = None" and "video_source s = Some src" and "\<not> isnumeric src"
  shows "\<exists>e. detect_and_display W fr pfp s = Inl e
           \<and> (e = TypeError
               \<or> detect_models W fr (zip (models_cascade s) (colors s)) ([], [], None)
                    (start_time W s) = Inl e)"
proof (cases "detect_models W fr (zip (models_cascade s) (colors s)) ([], [], None) (start_time W s)")
  case (Inl e)
  then show ?thesis by (simp add: detect_and_display_def detect_def)
next
  case (Inr r)
  obtain acc s1 where r: "r = (acc, s1)" by (cases r)
  from detect_models_fields[OF Inr[unfolded r]] assms
  have "times_arr s1 = None" "video_source s1 = Some src" by simp_all
  from end_time_unallocated[OF this assms(3)]
  have "end_time W s1 = Inl TypeError" .
  with Inr r show ?thesis
    by (simp add: detect_and_display_def detect_def split: prod.splits)
qed


subsection \<open>The statistics and the written prefix\<close>

lemma np_amax_Max: "xs \<noteq> [] \<Longrightarrow> np_amax xs = Inr (Max (set xs))"
  by (cases xs) (simp_all add: np_amax_def Max.set_eq_fold[symmetric])

lemma np_amin_Min: "xs \<noteq> [] \<Longrightarrow> np_amin xs = Inr (Min (set xs))"
  by (cases xs) (simp_all add: np_amin_def Min.set_eq_fold[symmetric])

lemma np_amax_empty: "np_amax [] = Inl ValueError" and np_amin_empty: "np_amin [] = Inl ValueError"
  by (simp_all add: np_amax_def np_amin_def)

lemma log_statistics_Inr:
  assumes "log_statistics t = Inr t'" and "times_arr t = Some buf"
  shows "take (times_index t) buf \<noteq> []"
    and "trace t' = trace t @
           [EvLogInfo (Average (sum_list (take (times_index t) buf)
                                  / real (length (take (times_index t) buf)))),
            EvLogInfo (MaxTime (Max (set (take (times_index t) buf)))),
            EvLogInfo (MinTime (Min (set (take (times_index t) buf))))]"
proof -
  show ne: "take (times_index t) buf \<noteq> []"
  proof
    assume "take (times_index t) buf = []"
    with assms show False by (simp add: log_statistics_def Let_def np_amax_empty)
  qed
  from assms np_amax_Max[OF ne] np_amin_Min[OF ne] ne
  show "trace t' = trace t @
           [EvLogInfo (Average (sum_list (take (times_index t) buf)
                                  / real (length (take (times_index t) buf)))),
            EvLogInfo (MaxTime (Max (set (take (times_index t) buf)))),
            EvLogInfo (MinTime (Min (set (take (times_index t) buf))))]"
    by (auto simp: log_statistics_def Let_def np_average_def)
qed

lemma log_statistics_empty:
  assumes "times_arr t = Some buf" and "times_index t = 0"
  shows "log_statistics t = Inl ValueError"
  using assms by (simp add: log_statistics_def Let_def np_amax_empty)



subsection \<open>The run after the capture is opened\<close>







subsection \<open>Running the concrete world\<close>

lemmas example_defs =
  example_dispatcher_def Dispatcher_init_def example_world_def quiet_world_def escape_world_def
  example_frame_def
  face_cascade_def body_cascade_def example_capture_def small_frame_def latched_dispatcher_def
  full_dispatcher_def camera_with_buffer_def

lemmas run_defs =
  detect_def preprocess_def start_time_def end_time_def emit_def model_shape_def
  isnumeric_def is_digit_def Let_def original_region_def processed_region_def Region_def
  detect_and_display_def display_show_def

lemmas start_defs =
  start_def start_image_def start_video_def truthy_def source_arg_of_def int_of_float_def
  int_of_str_def digit_val_def log_statistics_def np_average_def np_amax_def np_amin_def
  read_loop.simps

lemma example_detect:
  "\<exists>regions fp frp s'.
     detect example_world (Some example_frame) False (example_dispatcher (Some ''0'') None)
       = Inr ((regions, fp, frp), s')
     \<and> display_size s' = (320, 120)"
  by (simp add: example_defs run_defs)

lemma example_clip_run:
  "\<exists>s'. start quiet_world False (example_dispatcher (Some ''clip.mp4'') None) = Some (Returned s')
         \<and> times_arr s' = Some [1 / 2, 2] \<and> times_index s' = 2"
  by (simp add: example_defs run_defs start_defs upt_rec)

lemma example_vfr_run:
  "start quiet_world False (example_dispatcher (Some ''vfr.mp4'') None) = Some (Raised IndexError)"
  by (simp add: example_defs run_defs start_defs)

lemma example_empty_run:
  "start quiet_world False (example_dispatcher (Some ''empty.mp4'') None)
     = Some (Raised ValueError)"
  by (simp add: example_defs run_defs start_defs upt_rec)

lemma example_escape_camera_run:
  "start escape_world False (example_dispatcher (Some ''1'') None) = Some (Raised ValueError)"
  by (simp add: example_defs run_defs start_defs upt_rec)




section \<open>The properties\<close>

subsection \<open>Rescaling to the original frame\<close>

text \<open>
  C3. Whenever \<^verbatim>\<open>detect\<close> returns on a frame, the geometry of the regions it returns, in
  order, is that of the rectangles each model reported in working space, every one
  transformed to \<open>(x * sx, y * sy, w * sx, h * sy)\<close> where \<open>sx\<close> is the original width
  over the working width and \<open>sy\<close> the original height over the working height.
\<close>

theorem rescale_is_linear:
  assumes "detect W (Some f) pfp s = Inr ((regions, fp, frp), s')"
  shows "map geometry regions =
           concat (map (\<lambda>(m, c).
             map (rescaled (scale_x f (display_size s')) (scale_y f (display_size s')))
                 (obj_list_of m (processed_of f (display_size s'))))
             (zip (models_cascade s) (colors s)))"
proof -
  have "map geometry regions =
          concat (map (\<lambda>(m, c).
            map (geometry \<circ> original_region (scale_x f (display_size s')) (scale_y f (display_size s')) c (model_shape m))
                (obj_list_of m (processed_of f (display_size s'))))
            (zip (models_cascade s) (colors s)))"
    unfolding detect_regions[OF assms] map_concat
    by (simp add: comp_def case_prod_unfold)
  also have "\<dots> = concat (map (\<lambda>(m, c).
             map (rescaled (scale_x f (display_size s')) (scale_y f (display_size s')))
                 (obj_list_of m (processed_of f (display_size s'))))
             (zip (models_cascade s) (colors s)))"
    by (simp add: comp_def geometry_original_region)
  finally show ?thesis .
qed

theorem rescale_is_linear_witness:
  "\<exists>regions fp frp s'.
     detect example_world (Some example_frame) False (example_dispatcher (Some ''0'') None)
       = Inr ((regions, fp, frp), s')
     \<and> map geometry regions = [(20, 80, 60, 160), (2, 8, 6, 16), (10, 24, 14, 32)]"
proof -
  from example_detect obtain regions fp frp s' where
    ev: "detect example_world (Some example_frame) False (example_dispatcher (Some ''0'') None)
           = Inr ((regions, fp, frp), s')"
    and sz: "display_size s' = (320, 120)"
    by blast
  from rescale_is_linear[OF ev]
  have "map geometry regions = [(20, 80, 60, 160), (2, 8, 6, 16), (10, 24, 14, 32)]"
    by (simp add: sz example_defs scale_x_def scale_y_def obj_list_of_def rescaled_def)
  with ev show ?thesis by (intro exI conjI)
qed

subsection \<open>The shape tag\<close>



subsection \<open>The boundary configuration\<close>

text \<open>
  C9. What \<^verbatim>\<open>detect\<close> returns (the region lists, and the state it leaves) is the same
  whatever the module-level \<^verbatim>\<open>config_boundarys\<close> holds: for any two configuration files,
  present or missing, detection on the same frame with the same Dispatcher gives the same
  result. A missing file is not an error; it yields the empty tuple.
\<close>

theorem detect_ignores_boundarys:
  "detect (W\<lparr>module_config_boundarys := config_boundarys file1\<rparr>) fr pfp s
     = detect (W\<lparr>module_config_boundarys := config_boundarys file2\<rparr>) fr pfp s
   \<and> config_boundarys None = Inr EmptyTuple"
  by (simp add: detect_config config_boundarys_def)

subsection \<open>Preprocessing within one detection\<close>

text \<open>
  C6. The claim is that one call of \<^verbatim>\<open>detect\<close> preprocesses the frame once and shares
  the result among the models, as the docstring of \<^verbatim>\<open>preprocess\<close> says. The call of
  \<^verbatim>\<open>preprocess\<close> stands inside the loop over the models: with the two models of the
  concrete world, one detection calls it twice.
\<close>

theorem preprocess_repeated_per_model:
  "\<exists>r s'. detect example_world (Some example_frame) False (example_dispatcher (Some ''0'') None)
            = Inr (r, s')
          \<and> preprocess_calls (trace (example_dispatcher (Some ''0'') None)) = 0
          \<and> length (models_cascade (example_dispatcher (Some ''0'') None)) = 2
          \<and> preprocess_calls (trace s') = 2"
  by (simp add: example_defs run_defs preprocess_calls_def)

subsection \<open>The first-frame latch\<close>

text \<open>
  C5. A call of \<^verbatim>\<open>preprocess\<close> that returns leaves the latch cleared; it computes the
  working resolution from its frame only if the latch was still set, and otherwise resizes
  to the cached resolution, whatever the size of the frame. Once the latch is cleared,
  neither a detect-and-display step nor the whole read loop changes the working
  resolution.
\<close>

theorem working_resolution_latched:
  "(preprocess W (Some f) s = Inr (p, s1) \<longrightarrow>
      \<not> is_first_frame s1
      \<and> display_size s1 = (if is_first_frame s then set_orientation W f else display_size s)
      \<and> p = processed_of f (display_size s1))
   \<and> (\<not> is_first_frame s \<and> detect_and_display W fr pfp s = Inr s2 \<longrightarrow>
        display_size s2 = display_size s \<and> \<not> is_first_frame s2)
   \<and> (\<not> is_first_frame s \<and> read_loop W cap pfp s = Some (Inr s3) \<longrightarrow>
        display_size s3 = display_size s \<and> \<not> is_first_frame s3)"
proof (intro conjI impI)
  assume pre: "preprocess W (Some f) s = Inr (p, s1)"
  from preprocess_Inr(2)[OF pre] show "\<not> is_first_frame s1" .
  from preprocess_Inr(3)[OF pre]
  show "display_size s1 = (if is_first_frame s then set_orientation W f else display_size s)"
    by simp
  from preprocess_Inr(1)[OF pre] show "p = processed_of f (display_size s1)" by simp
next
  assume a: "\<not> is_first_frame s \<and> detect_and_display W fr pfp s = Inr s2"
  with detect_and_display_latched[of W fr pfp s s2]
  show "display_size s2 = display_size s" and "\<not> is_first_frame s2" by simp_all
next
  assume a: "\<not> is_first_frame s \<and> read_loop W cap pfp s = Some (Inr s3)"
  with read_loop_latched[of W cap pfp s s3]
  show "display_size s3 = display_size s" and "\<not> is_first_frame s3" by simp_all
qed

theorem working_resolution_latched_witness:
  "\<exists>p0 s0 p s1 s2 s3.
     preprocess example_world (Some example_frame) (example_dispatcher (Some ''0'') None)
       = Inr (p0, s0)
     \<and> display_size s0 = (320, 120)
     \<and> set_orientation example_world small_frame = (80, 22)
     \<and> \<not> is_first_frame latched_dispatcher
     \<and> preprocess example_world (Some small_frame) latched_dispatcher = Inr (p, s1)
     \<and> p = processed_of small_frame (320, 120) \<and> display_size s1 = (320, 120)
     \<and> detect_and_display example_world (Some small_frame) False latched_dispatcher = Inr s2
     \<and> display_size s2 = (320, 120)
     \<and> read_loop example_world (example_capture (CamIndex 0)) False latched_dispatcher
         = Some (Inr s3)
     \<and> display_size s3 = (320, 120)"
proof -
  have "\<exists>p0 s0. preprocess example_world (Some example_frame)
                   (example_dispatcher (Some ''0'') None) = Inr (p0, s0)"
    by (simp add: example_defs run_defs)
  then obtain p0 s0 where
    e0: "preprocess example_world (Some example_frame) (example_dispatcher (Some ''0'') None)
           = Inr (p0, s0)" by blast
  have "\<exists>p s1. preprocess example_world (Some small_frame) latched_dispatcher = Inr (p, s1)"
    by (simp add: example_defs run_defs)
  then obtain p s1 where
    e1: "preprocess example_world (Some small_frame) latched_dispatcher = Inr (p, s1)" by blast
  have "\<exists>s2. detect_and_display example_world (Some small_frame) False latched_dispatcher = Inr s2"
    by (simp add: example_defs run_defs)
  then obtain s2 where
    e2: "detect_and_display example_world (Some small_frame) False latched_dispatcher = Inr s2"
    by blast
  have "\<exists>s3. read_loop example_world (example_capture (CamIndex 0)) False latched_dispatcher
                = Some (Inr s3)"
    by (simp add: read_loop.simps example_defs run_defs)
  then obtain s3 where
    e3: "read_loop example_world (example_capture (CamIndex 0)) False latched_dispatcher
           = Some (Inr s3)" by blast
  have l: "\<not> is_first_frame latched_dispatcher" and sz: "display_size latched_dispatcher = (320, 120)"
    by (simp_all add: example_defs)
  have o: "set_orientation example_world small_frame = (80, 22)"
    "set_orientation example_world example_frame = (320, 120)"
    "is_first_frame (example_dispatcher (Some ''0'') None)"
    by (simp_all add: example_defs)
  from working_resolution_latched
         [of example_world example_frame "example_dispatcher (Some ''0'') None" p0 s0
             "Some small_frame" False s2 "example_capture (CamIndex 0)" s3] e0 o
  have c0: "display_size s0 = (320, 120)" by simp
  from working_resolution_latched
         [of example_world small_frame latched_dispatcher p s1
             "Some small_frame" False s2 "example_capture (CamIndex 0)" s3] e1 e2 e3 l sz
  have c1: "p = processed_of small_frame (320, 120)" "display_size s1 = (320, 120)"
    "display_size s2 = (320, 120)" "display_size s3 = (320, 120)" by simp_all
  from e0 c0 o(1) l e1 c1 e2 e3 show ?thesis by (intro exI conjI)
qed

subsection \<open>The timing buffer is never overrun\<close>

text \<open>
  C2. A timing write at an index that is not below the length of the buffer is stopped by
  numpy's bounds check: \<^verbatim>\<open>__end_time\<close> raises IndexError and stores nothing. Hence a run
  of \<^verbatim>\<open>start\<close> on a fresh Dispatcher that returns with a buffer has made at most as
  many writes as the buffer is long, and the buffer has the length of the frame count
  reported when the capture was opened.
\<close>

theorem timing_buffer_never_overrun:
  "(times_arr t = Some buf \<and> length buf \<le> times_index t \<and> video_source t = Some src
      \<and> \<not> isnumeric src \<and> start_time_int t = Some t0 \<longrightarrow> end_time W t = Inl IndexError)
   \<and> (start W pfp (Dispatcher_init ms vs im cs sz) = Some (Returned s') \<and> times_arr s' = Some b
        \<longrightarrow> times_index s' \<le> length b
          \<and> (\<exists>file. vs = Some file
                \<and> int (length b) = int_of_float (frame_count (VideoCapture W (source_arg_of file)))))"
proof (intro conjI impI)
  assume "times_arr t = Some buf \<and> length buf \<le> times_index t \<and> video_source t = Some src
      \<and> \<not> isnumeric src \<and> start_time_int t = Some t0"
  then show "end_time W t = Inl IndexError"
    using end_time_full[of t buf src t0 W] by simp
next
  let ?s0 = "Dispatcher_init ms vs im cs sz"
  assume a: "start W pfp ?s0 = Some (Returned s') \<and> times_arr s' = Some b"
  have fresh: "times_arr ?s0 = None" "times_index ?s0 = 0" "video_source ?s0 = vs"
    by (simp_all add: Dispatcher_init_def)
  from a obtain r s1 where img: "start_image W pfp ?s0 = Inr (r, s1)"
    by (auto simp: start_def split: sum.splits)
  from start_image_None[OF img fresh(1)] fresh
  have s1: "times_arr s1 = None" "times_index s1 = 0" by simp_all
  from start_image_Inr(1)[OF img] fresh have vs1: "video_source s1 = vs" by simp
  from a img s1 have "\<not> r" by (auto simp: start_def)
  with a img have "start_video W pfp s1 = Some (Returned s')" by (simp add: start_def)
  from start_video_buffer[OF this s1] a vs1
  show "times_index s' \<le> length b"
    and "\<exists>file. vs = Some file
           \<and> int (length b) = int_of_float (frame_count (VideoCapture W (source_arg_of file)))"
    by auto
qed

theorem timing_buffer_never_overrun_witness:
  "end_time quiet_world full_dispatcher = Inl IndexError
   \<and> (\<exists>s' b. start quiet_world False (example_dispatcher (Some ''clip.mp4'') None)
                 = Some (Returned s')
              \<and> times_arr s' = Some b \<and> length b = 2 \<and> times_index s' \<le> length b)"
proof -
  have h: "times_arr full_dispatcher = Some [1, 2]
           \<and> length [1, 2 :: real] \<le> times_index full_dispatcher
           \<and> video_source full_dispatcher = Some ''clip.mp4''
           \<and> \<not> isnumeric ''clip.mp4'' \<and> start_time_int full_dispatcher = Some 0"
    by (simp add: example_defs isnumeric_def is_digit_def)
  from example_clip_run obtain s' where
    run: "start quiet_world False (example_dispatcher (Some ''clip.mp4'') None) = Some (Returned s')"
    and b: "times_arr s' = Some [1 / 2, 2]" by blast
  note inst = timing_buffer_never_overrun
    [where t = full_dispatcher and buf = "[1, 2]" and src = "''clip.mp4''" and ?t0.0 = 0
       and W = quiet_world and pfp = False and s' = s' and b = "[1 / 2, 2]"
       and ms = "[face_cascade, body_cascade]" and vs = "Some ''clip.mp4''" and im = None
       and cs = "[(255, 0, 0), (0, 255, 0)]" and sz = "(0, 0)"]
  from inst h have c1: "end_time quiet_world full_dispatcher = Inl IndexError" by blast
  from inst run[unfolded example_dispatcher_def] b
  have c2: "times_index s' \<le> length [1 / 2, 2 :: real]" by blast
  from c1 run b c2 show ?thesis by auto
qed

subsection \<open>When the timing step writes and when the buffer exists\<close>

text \<open>
  C10. The timing step writes when the source string is not numeric; the buffer is
  allocated when the reported frame count is positive. For a source that is not numeric
  and still has no buffer, the write goes to \<^verbatim>\<open>None\<close> and raises TypeError; so a
  streaming run on such a source whose frame count is not positive ends with an exception
  at its first frame (the TypeError, unless a model raised before). For a numeric source
  neither the timing step nor the whole read loop touches the buffer or its index, even
  when a buffer is there.
\<close>

theorem timing_write_and_allocation_differ:
  "(times_arr t = None \<and> video_source t = Some src \<and> \<not> isnumeric src
      \<longrightarrow> end_time W t = Inl TypeError)
   \<and> (\<not> truthy (image_str s) \<and> video_source s = Some src \<and> \<not> isnumeric src
        \<and> times_arr s = None
        \<and> isOpened (VideoCapture W (source_arg_of src))
        \<and> int_of_float (frame_count (VideoCapture W (source_arg_of src))) \<le> 0
        \<and> cap_read (VideoCapture W (source_arg_of src)) 0 = Some f
      \<longrightarrow> (\<exists>e. start W pfp s = Some (Raised e)
             \<and> (e = TypeError
                 \<or> (\<exists>u. detect_models W (Some f) (zip (models_cascade s) (colors s))
                           ([], [], None) u = Inl e))))
   \<and> (video_source t = Some num \<and> isnumeric num \<and> end_time W t = Inr t'
      \<longrightarrow> times_arr t' = times_arr t \<and> times_index t' = times_index t)
   \<and> (video_source t = Some num \<and> isnumeric num \<and> read_loop W cap pfp t = Some (Inr t')
      \<longrightarrow> times_arr t' = times_arr t \<and> times_index t' = times_index t)"
proof (intro conjI impI)
  assume "times_arr t = None \<and> video_source t = Some src \<and> \<not> isnumeric src"
  then show "end_time W t = Inl TypeError"
    using end_time_unallocated[of t src W] by simp
next
  let ?cap = "VideoCapture W (source_arg_of src)"
  assume a: "\<not> truthy (image_str s) \<and> video_source s = Some src \<and> \<not> isnumeric src
        \<and> times_arr s = None \<and> isOpened ?cap \<and> int_of_float (frame_count ?cap) \<le> 0
        \<and> cap_read ?cap 0 = Some f"
  let ?s2 = "emit (EvVideoCapture (source_arg_of src)) (s\<lparr>read_pos := 0\<rparr>)"
  let ?s3 = "emit EvRead (?s2\<lparr>read_pos := Suc (read_pos ?s2)\<rparr>)"
  from a have "times_arr ?s3 = None" "video_source ?s3 = Some src" "\<not> isnumeric src"
    by simp_all
  from detect_and_display_unallocated_error[OF this, of W "Some f" pfp]
  obtain e where dd: "detect_and_display W (Some f) pfp ?s3 = Inl e"
    and e: "e = TypeError \<or> detect_models W (Some f) (zip (models_cascade s) (colors s))
               ([], [], None) (start_time W ?s3) = Inl e"
    by auto
  from a dd have "read_loop W ?cap pfp ?s2 = Some (Inl e)"
    by (subst read_loop.simps) (simp add: Let_def)
  with a have "start W pfp s = Some (Raised e)"
    by (simp add: start_def start_image_def start_video_def Let_def)
  with e show "\<exists>e. start W pfp s = Some (Raised e)
             \<and> (e = TypeError
                 \<or> (\<exists>u. detect_models W (Some f) (zip (models_cascade s) (colors s))
                           ([], [], None) u = Inl e))"
    by blast
next
  assume a: "video_source t = Some num \<and> isnumeric num \<and> end_time W t = Inr t'"
  with end_time_numeric[of t num W t']
  show "times_arr t' = times_arr t" and "times_index t' = times_index t" by simp_all
next
  assume a: "video_source t = Some num \<and> isnumeric num \<and> read_loop W cap pfp t = Some (Inr t')"
  with read_loop_numeric[of W cap pfp t t' num]
  show "times_arr t' = times_arr t" and "times_index t' = times_index t" by simp_all
qed

theorem timing_write_and_allocation_differ_witness:
  "end_time example_world (example_dispatcher (Some ''rtsp://cam'') None) = Inl TypeError
   \<and> \<not> isnumeric ''rtsp://cam''
   \<and> int_of_float (frame_count (VideoCapture example_world (source_arg_of ''rtsp://cam''))) \<le> 0
   \<and> (\<exists>e. start example_world False (example_dispatcher (Some ''rtsp://cam'') None)
             = Some (Raised e))
   \<and> isnumeric ''0''
   \<and> (\<exists>t'. end_time example_world camera_with_buffer = Inr t'
           \<and> times_arr t' = Some [99, 99] \<and> times_index t' = 0)
   \<and> (\<exists>t'. read_loop example_world (example_capture (CamIndex 0)) False camera_with_buffer
             = Some (Inr t')
           \<and> times_arr t' = Some [99, 99] \<and> times_index t' = 0)"
proof -
  let ?s = "example_dispatcher (Some ''rtsp://cam'') None"
  let ?cap = "VideoCapture example_world (source_arg_of ''rtsp://cam'')"
  have n: "\<not> isnumeric ''rtsp://cam''" "isnumeric ''0''"
    by (simp_all add: isnumeric_def is_digit_def)
  have h1: "times_arr ?s = None \<and> video_source ?s = Some ''rtsp://cam''"
    by (simp add: example_defs)
  have h2: "\<not> truthy (image_str ?s)" "isOpened ?cap" "int_of_float (frame_count ?cap) \<le> 0"
    "cap_read ?cap 0 = Some example_frame"
    by (simp_all add: example_defs truthy_def source_arg_of_def isnumeric_def is_digit_def
          int_of_float_def)
  have h3: "video_source camera_with_buffer = Some ''0''"
    "times_arr camera_with_buffer = Some [99, 99]" "times_index camera_with_buffer = 0"
    by (simp_all add: example_defs)
  have "\<exists>t'. end_time example_world camera_with_buffer = Inr t'"
    by (simp add: example_defs run_defs)
  then obtain t1 where e1: "end_time example_world camera_with_buffer = Inr t1" by blast
  have "\<exists>t'. read_loop example_world (example_capture (CamIndex 0)) False camera_with_buffer
                = Some (Inr t')"
    by (simp add: example_defs run_defs start_defs)
  then obtain t2 where
    e2: "read_loop example_world (example_capture (CamIndex 0)) False camera_with_buffer
           = Some (Inr t2)" by blast
  note a = timing_write_and_allocation_differ
    [where t = ?s and src = "''rtsp://cam''" and W = example_world and s = ?s
       and f = example_frame and pfp = False and num = "''0''"]
  note b = timing_write_and_allocation_differ
    [where t = camera_with_buffer and num = "''0''" and W = example_world and t' = t1
       and pfp = False]
  note c = timing_write_and_allocation_differ
    [where t = camera_with_buffer and num = "''0''" and W = example_world and t' = t2
       and pfp = False and cap = "example_capture (CamIndex 0)"]
  from a h1 n have c1: "end_time example_world ?s = Inl TypeError" by blast
  from a h1 h2 n have c2: "\<exists>e. start example_world False ?s = Some (Raised e)" by blast
  from b h3 n e1 have c3: "times_arr t1 = Some [99, 99] \<and> times_index t1 = 0" by simp
  from c h3 n e2 have c4: "times_arr t2 = Some [99, 99] \<and> times_index t2 = 0" by simp
  from c1 n h2(3) c2 e1 c3 e2 c4 show ?thesis by blast
qed

subsection \<open>Single-image mode\<close>

text \<open>
  C1. The claim is that with an image path the streaming loop is never entered, whatever
  key is pressed. The \<^verbatim>\<open>return\<close> of line 116 is taken only for escape: with the image
  \<^verbatim>\<open>a.png\<close>, the default source \<^verbatim>\<open>"0"\<close> and the space bar as the key,
  \<^verbatim>\<open>start\<close> goes on to open camera 0, reads from it, and detects and displays a second
  time.
\<close>

theorem image_mode_falls_through:
  "waitKey example_world 0 \<noteq> 27
   \<and> (\<exists>s'. start example_world False (example_dispatcher (Some ''0'') (Some ''a.png''))
              = Some (Returned s')
           \<and> EvVideoCapture (CamIndex 0) \<in> set (trace s')
           \<and> EvRead \<in> set (trace s')
           \<and> show_calls (trace s') = 2)"
  by (simp add: example_defs run_defs start_defs show_calls_def)

subsection \<open>Exit status\<close>




subsection \<open>The statistics at the end of the run\<close>




end
